theory Spec2Isabelle
  imports Main
begin

section \<open>Shared conventions\<close>

text \<open>
  An awaited promise either rejects with a thrown value or resolves with a result: a
  value of type \<open>'e + 'a\<close>, \<open>Inl\<close> the rejection. A remote operation is a function from
  its arguments to such an outcome, supplied by the caller of the model, so that every
  theorem ranges over every behaviour of the backend. The calls a function issues,
  and the notices it shows, are recorded in order in a list.
\<close>

text \<open>
  JavaScript's \<open>a || b\<close> for a string \<open>a\<close> that may be undefined: \<open>b\<close> is taken when
  \<open>a\<close> is undefined or the empty string.
\<close>

fun truthy :: "string option \<Rightarrow> bool" where
  "truthy None = False"
| "truthy (Some s) = (s \<noteq> [])"

fun logical_or :: "string option \<Rightarrow> string \<Rightarrow> string" where
  "logical_or None d = d"
| "logical_or (Some s) d = (if s = [] then d else s)"

section \<open>wherehows-web/app/utils/api/datasets/compliance.ts\<close>

text \<open>
  The module's imports are not part of the sources at hand; they are parameters of the
  model. \<open>'e\<close> is the type of thrown values, \<open>'ci\<close> is \<open>IComplianceInfo\<close>, \<open>'r\<close> the
  retention policy and \<open>'v\<close> the type of the values held by a suggestion object.
\<close>

text \<open>A suggestion is a plain object; \<open>{}\<close> is the empty list of fields.\<close>

type_synonym 'v IComplianceSuggestion = "(string \<times> 'v) list"

text \<open>The picked field of each response may be undefined.\<close>

record 'ci IComplianceGetResponse =
  response_complianceInfo :: "'ci option"

record 'v IComplianceSuggestionResponse =
  response_complianceSuggestion :: "'v IComplianceSuggestion option"

text \<open>
  \<open>IReadComplianceResult\<close>. The non-null assertion of the source is erased at run time,
  so the field holds whatever the variable held: possibly undefined.
\<close>

record 'ci IReadComplianceResult =
  isNewComplianceInfo :: bool
  complianceInfo :: "'ci option"

record ('e, 'ci, 'r, 'v) deps =
  datasetUrlByUrn :: "string \<Rightarrow> string"
  initialComplianceObjectFactory :: "string \<Rightarrow> 'ci"
  isNotFoundApiError :: "'e \<Rightarrow> bool"
  nullifyRetentionFieldsOnComplianceInfo :: "'ci \<Rightarrow> 'ci"
  extractRetentionFromComplianceInfo :: "'ci \<Rightarrow> 'r"
  getJSON_compliance :: "string \<Rightarrow> 'e + 'ci IComplianceGetResponse"
  getJSON_suggestion :: "string \<Rightarrow> 'e + 'v IComplianceSuggestionResponse"
  postJSON :: "string \<Rightarrow> 'ci \<Rightarrow> 'e + unit"
  saveDatasetRetentionByUrn :: "string \<Rightarrow> 'r \<Rightarrow> 'e + unit"

text \<open>The writes a function issues, in order.\<close>

datatype ('ci, 'r) request =
  PostJSON string 'ci
| SaveDatasetRetentionByUrn string 'r

definition datasetComplianceUrlByUrn :: "('e, 'ci, 'r, 'v) deps \<Rightarrow> string \<Rightarrow> string" where
  "datasetComplianceUrlByUrn m urn = datasetUrlByUrn m urn @ ''/compliance''"

definition datasetComplianceSuggestionUrlByUrn ::
  "('e, 'ci, 'r, 'v) deps \<Rightarrow> string \<Rightarrow> string" where
  "datasetComplianceSuggestionUrlByUrn m urn = datasetUrlByUrn m urn @ ''/compliance/suggestion''"

definition datasetComplianceSuggestionFeedbackUrlByUrn ::
  "('e, 'ci, 'r, 'v) deps \<Rightarrow> string \<Rightarrow> string" where
  "datasetComplianceSuggestionFeedbackUrlByUrn m urn =
     datasetComplianceSuggestionUrlByUrn m urn @ ''/feedback''"

text \<open>
  \<open>readDatasetComplianceByUrn\<close>: the variable \<open>complianceInfo\<close> starts as the factory's
  object and \<open>isNewComplianceInfo\<close> as false; the destructuring assignment overwrites the
  variable with the response's field; the handler tests the thrown value.
\<close>

definition readDatasetComplianceByUrn ::
  "('e, 'ci, 'r, 'v) deps \<Rightarrow> string \<Rightarrow> 'e + 'ci IReadComplianceResult" where
  "readDatasetComplianceByUrn m urn =
     (let complianceInfo0 = Some (initialComplianceObjectFactory m urn);
          isNewComplianceInfo0 = False
      in case getJSON_compliance m (datasetComplianceUrlByUrn m urn) of
           Inr response \<Rightarrow>
             Inr \<lparr>isNewComplianceInfo = isNewComplianceInfo0,
                  complianceInfo = response_complianceInfo response\<rparr>
         | Inl e \<Rightarrow>
             if isNotFoundApiError m e
             then Inr \<lparr>isNewComplianceInfo = True,
                       complianceInfo = Some (initialComplianceObjectFactory m urn)\<rparr>
             else Inl e)"

text \<open>
  \<open>saveDatasetComplianceByUrn\<close>, from the log of the requests issued so far: each
  \<open>await\<close> issues its request and, on a rejection, leaves the function with it.
\<close>

definition saveDatasetComplianceByUrn ::
  "('e, 'ci, 'r, 'v) deps \<Rightarrow> string \<Rightarrow> 'ci \<Rightarrow> ('ci, 'r) request list
     \<Rightarrow> ('e + unit) \<times> ('ci, 'r) request list" where
  "saveDatasetComplianceByUrn m urn info log =
     (let url = datasetComplianceUrlByUrn m urn;
          data = nullifyRetentionFieldsOnComplianceInfo m info;
          log1 = log @ [PostJSON url data]
      in case postJSON m url data of
           Inl e \<Rightarrow> (Inl e, log1)
         | Inr _ \<Rightarrow>
             (let retention = extractRetentionFromComplianceInfo m info;
                  log2 = log1 @ [SaveDatasetRetentionByUrn urn retention]
              in case saveDatasetRetentionByUrn m urn retention of
                   Inl e \<Rightarrow> (Inl e, log2)
                 | Inr _ \<Rightarrow> (Inr (), log2)))"

text \<open>
  \<open>readDatasetComplianceSuggestionByUrn\<close>: the destructuring default \<open>{}\<close> stands in for
  an undefined field; the handler binds no variable and returns the initial object.
\<close>

definition readDatasetComplianceSuggestionByUrn ::
  "('e, 'ci, 'r, 'v) deps \<Rightarrow> string \<Rightarrow> 'e + 'v IComplianceSuggestion" where
  "readDatasetComplianceSuggestionByUrn m urn =
     (let complianceSuggestion0 = [] :: 'v IComplianceSuggestion
      in case getJSON_suggestion m (datasetComplianceSuggestionUrlByUrn m urn) of
           Inr response \<Rightarrow>
             Inr (case response_complianceSuggestion response of
                    None \<Rightarrow> []
                  | Some s \<Rightarrow> s)
         | Inl _ \<Rightarrow> Inr complianceSuggestion0)"

section \<open>datahub-web-react: Documentation/components/LinkList.tsx\<close>

text \<open>The fields of \<open>InstitutionalMemoryMetadata\<close> that the handlers read.\<close>

record InstitutionalMemoryMetadata =
  url :: string
  label :: string
  description :: string
  associatedUrn :: "string option"

text \<open>The value of the edit form handed to \<open>handleEdit\<close>.\<close>

record formData =
  form_url :: string
  form_label :: string

record userContext =
  user_urn :: "string option"

text \<open>A thrown value is an instance of \<open>Error\<close>, with its message, or anything else.\<close>

datatype thrown =
  ErrorInstance (message: string)
| OtherValue string

text \<open>What the handlers do to the outside world, in order.\<close>

datatype event =
  RemoveLink string string
| AddLink string string string
| MessageSuccess string
| MessageError string
| MessageDestroy
| AnalyticsEntityActionEvent string string string
| Refetch
| SetEditModalVisible bool

text \<open>
  The component's props, hook values and state. \<open>has_refetch\<close> tells whether the
  optional \<open>refetch\<close> prop was given. The two mutations take the fields of their
  \<open>input\<close> variable: (linkUrl, resourceUrn) and (linkUrl, label, resourceUrn).
\<close>

record LinkListProps =
  has_refetch :: bool
  linkDetails :: "InstitutionalMemoryMetadata option"
  entityUrn :: string
  entityType :: string
  mutationUrn :: string
  user :: "userContext option"
  removeLinkMutation :: "string \<Rightarrow> string \<Rightarrow> thrown + unit"
  addLinkMutation :: "string \<Rightarrow> string \<Rightarrow> string \<Rightarrow> thrown + unit"

text \<open>\<open>user?.urn\<close>\<close>

fun optional_urn :: "userContext option \<Rightarrow> string option" where
  "optional_urn None = None"
| "optional_urn (Some u) = user_urn u"

text \<open>\<open>refetch?.()\<close>\<close>

definition call_refetch :: "LinkListProps \<Rightarrow> event list" where
  "call_refetch p = (if has_refetch p then [Refetch] else [])"

definition handleClose :: "event list" where
  "handleClose = [SetEditModalVisible False]"

text \<open>The two notices built from a template literal: text, newline, space, message.\<close>

definition removing_notice :: "string \<Rightarrow> string" where
  "removing_notice msg = ''Error removing link: '' @ [CHR 0x0A] @ '' '' @ logical_or (Some msg) []"

definition updating_notice :: "string \<Rightarrow> string" where
  "updating_notice msg = ''Error updating link: '' @ [CHR 0x0A] @ '' '' @ logical_or (Some msg) []"

text \<open>The \<open>catch\<close> block of \<open>handleDeleteLink\<close>.\<close>

fun catch_delete :: "thrown \<Rightarrow> event list" where
  "catch_delete (ErrorInstance msg) = [MessageDestroy, MessageError (removing_notice msg)]"
| "catch_delete (OtherValue _) = [MessageDestroy]"

text \<open>The \<open>catch\<close> block of \<open>handleEdit\<close>.\<close>

fun catch_edit :: "thrown \<Rightarrow> event list" where
  "catch_edit (ErrorInstance msg) = [MessageDestroy, MessageError (updating_notice msg)]"
| "catch_edit (OtherValue _) = [MessageDestroy]"

definition handleDeleteLink :: "LinkListProps \<Rightarrow> InstitutionalMemoryMetadata \<Rightarrow> event list" where
  "handleDeleteLink p metadata =
     (let resourceUrn = logical_or (associatedUrn metadata) (entityUrn p)
      in RemoveLink (url metadata) resourceUrn #
         (case removeLinkMutation p (url metadata) resourceUrn of
            Inr _ \<Rightarrow> [MessageSuccess ''Link Removed'']
          | Inl e \<Rightarrow> catch_delete e)
         @ call_refetch p)"

definition handleEdit :: "LinkListProps \<Rightarrow> formData \<Rightarrow> event list" where
  "handleEdit p fd =
     (case linkDetails p of
        None \<Rightarrow> []
      | Some details \<Rightarrow>
          (let resourceUrn = logical_or (associatedUrn details) (entityUrn p)
           in RemoveLink (url details) resourceUrn #
              (case removeLinkMutation p (url details) resourceUrn of
                 Inl e \<Rightarrow> catch_edit e
               | Inr _ \<Rightarrow>
                   if truthy (optional_urn (user p))
                   then AddLink (form_url fd) (form_label fd) (mutationUrn p) #
                        (case addLinkMutation p (form_url fd) (form_label fd) (mutationUrn p) of
                           Inl e \<Rightarrow> catch_edit e
                         | Inr _ \<Rightarrow>
                             [MessageSuccess ''Link Updated'',
                              AnalyticsEntityActionEvent (entityType p) (mutationUrn p) ''UpdateLinks'']
                             @ call_refetch p @ handleClose)
                   else [MessageError ''Error updating link: no user''])))"

text \<open>The two remote writes among the events.\<close>

fun is_mutation :: "event \<Rightarrow> bool" where
  "is_mutation (RemoveLink _ _) = True"
| "is_mutation (AddLink _ _ _) = True"
| "is_mutation _ = False"

text \<open>The error notices among the events.\<close>

fun is_error_notice :: "event \<Rightarrow> bool" where
  "is_error_notice (MessageError _) = True"
| "is_error_notice _ = False"

section \<open>Example backends\<close>

text \<open>
  A concrete instance of the compliance module's imports, for running the model: a thrown
  value is an HTTP status, a policy is a pair of its dataset urn and an optional
  retention period. The four remote operations are the arguments.
\<close>

definition example_backend ::
  "(string \<Rightarrow> nat + (string \<times> nat option) IComplianceGetResponse)
   \<Rightarrow> (string \<Rightarrow> nat + string IComplianceSuggestionResponse)
   \<Rightarrow> (string \<Rightarrow> string \<times> nat option \<Rightarrow> nat + unit)
   \<Rightarrow> (string \<Rightarrow> nat option \<Rightarrow> nat + unit)
   \<Rightarrow> (nat, string \<times> nat option, nat option, string) deps" where
  "example_backend get_compliance get_suggestion post save_retention =
     \<lparr>datasetUrlByUrn = (\<lambda>urn. ''/api/v2/datasets/'' @ urn),
      initialComplianceObjectFactory = (\<lambda>urn. (urn, None)),
      isNotFoundApiError = (\<lambda>e. e = 404),
      nullifyRetentionFieldsOnComplianceInfo = (\<lambda>info. (fst info, None)),
      extractRetentionFromComplianceInfo = snd,
      getJSON_compliance = get_compliance,
      getJSON_suggestion = get_suggestion,
      postJSON = post,
      saveDatasetRetentionByUrn = save_retention\<rparr>"

text \<open>Every request answered with the given status.\<close>

definition backend_failing :: "nat \<Rightarrow> (nat, string \<times> nat option, nat option, string) deps" where
  "backend_failing status =
     example_backend (\<lambda>_. Inl status) (\<lambda>_. Inl status) (\<lambda>_ _. Inl status) (\<lambda>_ _. Inl status)"

text \<open>Every read answered with the given field, every write accepted.\<close>

definition backend_serving ::
  "(string \<times> nat option) option \<Rightarrow> (nat, string \<times> nat option, nat option, string) deps" where
  "backend_serving field =
     example_backend (\<lambda>_. Inr \<lparr>response_complianceInfo = field\<rparr>)
       (\<lambda>_. Inr \<lparr>response_complianceSuggestion = None\<rparr>) (\<lambda>_ _. Inr ()) (\<lambda>_ _. Inr ())"

text \<open>The policy write accepted, the retention write refused with the given status.\<close>

definition backend_retention_failing ::
  "nat \<Rightarrow> (nat, string \<times> nat option, nat option, string) deps" where
  "backend_retention_failing status =
     example_backend (\<lambda>_. Inl status) (\<lambda>_. Inl status) (\<lambda>_ _. Inr ()) (\<lambda>_ _. Inl status)"

section \<open>Example components\<close>

text \<open>
  A concrete instance of the component: the link at hand, the two mutations and the
  signed-in user are the arguments; the \<open>refetch\<close> prop is given.
\<close>

definition example_link :: "string option \<Rightarrow> InstitutionalMemoryMetadata" where
  "example_link associated =
     \<lparr>url = ''https://wiki/old'', label = ''old'', description = ''Old page'',
      associatedUrn = associated\<rparr>"

definition example_form :: formData where
  "example_form = \<lparr>form_url = ''https://wiki/new'', form_label = ''New page''\<rparr>"

definition example_props ::
  "(string \<Rightarrow> string \<Rightarrow> thrown + unit) \<Rightarrow> (string \<Rightarrow> string \<Rightarrow> string \<Rightarrow> thrown + unit)
   \<Rightarrow> userContext option \<Rightarrow> LinkListProps" where
  "example_props remove add signed_in =
     \<lparr>has_refetch = True,
      linkDetails = Some (example_link None),
      entityUrn = ''urn:li:dataset:1'',
      entityType = ''DATASET'',
      mutationUrn = ''urn:li:dataset:1'',
      user = signed_in,
      removeLinkMutation = remove,
      addLinkMutation = add\<rparr>"

definition signed_in_user :: "userContext option" where
  "signed_in_user = Some \<lparr>user_urn = Some ''urn:li:corpuser:jdoe''\<rparr>"

text \<open>The component in the situations an edit can meet.\<close>

definition props_accepting :: LinkListProps where
  "props_accepting = example_props (\<lambda>_ _. Inr ()) (\<lambda>_ _ _. Inr ()) signed_in_user"

definition props_remove_rejecting :: "thrown \<Rightarrow> LinkListProps" where
  "props_remove_rejecting e = example_props (\<lambda>_ _. Inl e) (\<lambda>_ _ _. Inr ()) signed_in_user"

definition props_add_rejecting :: "thrown \<Rightarrow> LinkListProps" where
  "props_add_rejecting e = example_props (\<lambda>_ _. Inr ()) (\<lambda>_ _ _. Inl e) signed_in_user"

definition props_signed_out :: LinkListProps where
  "props_signed_out = example_props (\<lambda>_ _. Inr ()) (\<lambda>_ _ _. Inr ()) (Some \<lparr>user_urn = None\<rparr>)"

definition props_no_link :: LinkListProps where
  "props_no_link = props_accepting\<lparr>linkDetails := None\<rparr>"

section \<open>Reading a compliance policy\<close>

text \<open>
  C1. For every urn, when the compliance GET fails with a not-found error,
  \<open>readDatasetComplianceByUrn\<close> resolves to a result whose \<open>complianceInfo\<close> is
  \<open>initialComplianceObjectFactory(urn)\<close> and whose \<open>isNewComplianceInfo\<close> flag is true.
\<close>

theorem readDatasetComplianceByUrn_not_found:
  assumes "getJSON_compliance m (datasetComplianceUrlByUrn m urn) = Inl e"
    and "isNotFoundApiError m e"
  shows "readDatasetComplianceByUrn m urn =
           Inr \<lparr>isNewComplianceInfo = True,
                complianceInfo = Some (initialComplianceObjectFactory m urn)\<rparr>"
  using assms by (simp add: readDatasetComplianceByUrn_def)

theorem readDatasetComplianceByUrn_not_found_witness:
  "getJSON_compliance (backend_failing 404)
       (datasetComplianceUrlByUrn (backend_failing 404) ''urn:li:dataset:1'') = Inl 404
   \<and> isNotFoundApiError (backend_failing 404) 404
   \<and> readDatasetComplianceByUrn (backend_failing 404) ''urn:li:dataset:1'' =
       Inr \<lparr>isNewComplianceInfo = True, complianceInfo = Some (''urn:li:dataset:1'', None)\<rparr>"
  using readDatasetComplianceByUrn_not_found [of "backend_failing 404" "''urn:li:dataset:1''" 404]
  by (simp add: backend_failing_def example_backend_def)

text \<open>
  C5. For every urn, when the compliance GET succeeds, \<open>readDatasetComplianceByUrn\<close>
  resolves to the response's \<open>complianceInfo\<close> field as it is, with
  \<open>isNewComplianceInfo\<close> false; when the GET fails with an error that is not a not-found
  error, it rejects with that same error.
\<close>

theorem readDatasetComplianceByUrn_success_or_rethrow:
  "(getJSON_compliance m (datasetComplianceUrlByUrn m urn) = Inr response \<longrightarrow>
      readDatasetComplianceByUrn m urn =
        Inr \<lparr>isNewComplianceInfo = False,
             complianceInfo = response_complianceInfo response\<rparr>)
   \<and> (getJSON_compliance m (datasetComplianceUrlByUrn m urn) = Inl e
        \<and> \<not> isNotFoundApiError m e \<longrightarrow>
      readDatasetComplianceByUrn m urn = Inl e)"
  by (simp add: readDatasetComplianceByUrn_def)

theorem readDatasetComplianceByUrn_success_or_rethrow_witness:
  "getJSON_compliance (backend_serving (Some (''urn:li:dataset:1'', Some 30)))
       (datasetComplianceUrlByUrn (backend_serving (Some (''urn:li:dataset:1'', Some 30)))
          ''urn:li:dataset:1'')
     = Inr \<lparr>response_complianceInfo = Some (''urn:li:dataset:1'', Some 30)\<rparr>
   \<and> readDatasetComplianceByUrn (backend_serving (Some (''urn:li:dataset:1'', Some 30)))
         ''urn:li:dataset:1''
     = Inr \<lparr>isNewComplianceInfo = False,
            complianceInfo = Some (''urn:li:dataset:1'', Some 30)\<rparr>
   \<and> getJSON_compliance (backend_failing 500)
         (datasetComplianceUrlByUrn (backend_failing 500) ''urn:li:dataset:1'') = Inl 500
   \<and> \<not> isNotFoundApiError (backend_failing 500) 500
   \<and> readDatasetComplianceByUrn (backend_failing 500) ''urn:li:dataset:1'' = Inl 500"
  using
    readDatasetComplianceByUrn_success_or_rethrow
      [of "backend_serving (Some (''urn:li:dataset:1'', Some 30))" "''urn:li:dataset:1''"
          "\<lparr>response_complianceInfo = Some (''urn:li:dataset:1'', Some 30)\<rparr>" 500]
    readDatasetComplianceByUrn_success_or_rethrow
      [of "backend_failing 500" "''urn:li:dataset:1''" "\<lparr>response_complianceInfo = None\<rparr>" 500]
  by (simp add: backend_serving_def backend_failing_def example_backend_def)

text \<open>
  C9. When the compliance GET succeeds with a body whose \<open>complianceInfo\<close> field is
  undefined, \<open>readDatasetComplianceByUrn\<close> resolves with an undefined \<open>complianceInfo\<close>
  and \<open>isNewComplianceInfo\<close> false: the object of the factory, assigned before the
  fetch, has been overwritten by the destructuring and is not what is returned.
\<close>

theorem readDatasetComplianceByUrn_undefined_field:
  assumes "getJSON_compliance m (datasetComplianceUrlByUrn m urn) = Inr response"
    and "response_complianceInfo response = None"
  shows "readDatasetComplianceByUrn m urn =
           Inr \<lparr>isNewComplianceInfo = False, complianceInfo = None\<rparr>
         \<and> readDatasetComplianceByUrn m urn \<noteq>
           Inr \<lparr>isNewComplianceInfo = False,
                complianceInfo = Some (initialComplianceObjectFactory m urn)\<rparr>"
  using assms by (simp add: readDatasetComplianceByUrn_def)

theorem readDatasetComplianceByUrn_undefined_field_witness:
  "getJSON_compliance (backend_serving None)
       (datasetComplianceUrlByUrn (backend_serving None) ''urn:li:dataset:1'')
     = Inr \<lparr>response_complianceInfo = None\<rparr>
   \<and> response_complianceInfo
        (\<lparr>response_complianceInfo = None\<rparr> :: (string \<times> nat option) IComplianceGetResponse) = None
   \<and> readDatasetComplianceByUrn (backend_serving None) ''urn:li:dataset:1'' =
       Inr \<lparr>isNewComplianceInfo = False, complianceInfo = None\<rparr>"
  using readDatasetComplianceByUrn_undefined_field
      [of "backend_serving None" "''urn:li:dataset:1''" "\<lparr>response_complianceInfo = None\<rparr>"]
  by (simp add: backend_serving_def example_backend_def)

section \<open>Reading a suggestion\<close>

text \<open>
  C4. For every urn, \<open>readDatasetComplianceSuggestionByUrn\<close> never rejects: whatever the
  fetch does, it resolves; and when the fetch throws, whatever the thrown value, it
  resolves to the empty suggestion object.
\<close>

theorem readDatasetComplianceSuggestionByUrn_never_rejects:
  "(\<exists>suggestion. readDatasetComplianceSuggestionByUrn m urn = Inr suggestion)
   \<and> (getJSON_suggestion m (datasetComplianceSuggestionUrlByUrn m urn) = Inl e \<longrightarrow>
        readDatasetComplianceSuggestionByUrn m urn = Inr [])"
  by (simp add: readDatasetComplianceSuggestionByUrn_def split: sum.split)

theorem readDatasetComplianceSuggestionByUrn_never_rejects_witness:
  "getJSON_suggestion (backend_failing 500)
       (datasetComplianceSuggestionUrlByUrn (backend_failing 500) ''urn:li:dataset:1'') = Inl 500
   \<and> readDatasetComplianceSuggestionByUrn (backend_failing 500) ''urn:li:dataset:1'' = Inr []"
  using readDatasetComplianceSuggestionByUrn_never_rejects
      [of "backend_failing 500" "''urn:li:dataset:1''" 500]
  by (simp add: backend_failing_def example_backend_def)

section \<open>Saving a compliance policy\<close>

text \<open>
  C3. For every urn and policy, \<open>saveDatasetComplianceByUrn\<close> first posts to the policy
  endpoint the policy with its retention fields stripped; once that post has resolved,
  and only then, it hands the retention fields extracted from the original policy to
  the retention write for the same urn. When the second write fails the function
  rejects with its error and the log holds the completed first post followed by the
  failed write and nothing else: nothing is issued to undo the first.
\<close>

theorem saveDatasetComplianceByUrn_sequence:
  "(\<exists>rest. snd (saveDatasetComplianceByUrn m urn info log) =
       log @ PostJSON (datasetComplianceUrlByUrn m urn)
               (nullifyRetentionFieldsOnComplianceInfo m info) # rest)
   \<and> (postJSON m (datasetComplianceUrlByUrn m urn)
          (nullifyRetentionFieldsOnComplianceInfo m info) = Inr () \<longrightarrow>
        snd (saveDatasetComplianceByUrn m urn info log) =
          log @ [PostJSON (datasetComplianceUrlByUrn m urn)
                   (nullifyRetentionFieldsOnComplianceInfo m info),
                 SaveDatasetRetentionByUrn urn (extractRetentionFromComplianceInfo m info)])
   \<and> (postJSON m (datasetComplianceUrlByUrn m urn)
          (nullifyRetentionFieldsOnComplianceInfo m info) = Inr ()
        \<and> saveDatasetRetentionByUrn m urn (extractRetentionFromComplianceInfo m info) = Inl e \<longrightarrow>
        saveDatasetComplianceByUrn m urn info log =
          (Inl e,
           log @ [PostJSON (datasetComplianceUrlByUrn m urn)
                    (nullifyRetentionFieldsOnComplianceInfo m info),
                  SaveDatasetRetentionByUrn urn (extractRetentionFromComplianceInfo m info)]))
   \<and> (postJSON m (datasetComplianceUrlByUrn m urn)
          (nullifyRetentionFieldsOnComplianceInfo m info) = Inl e \<longrightarrow>
        saveDatasetComplianceByUrn m urn info log =
          (Inl e,
           log @ [PostJSON (datasetComplianceUrlByUrn m urn)
                    (nullifyRetentionFieldsOnComplianceInfo m info)]))"
  by (simp add: saveDatasetComplianceByUrn_def Let_def split: sum.split)

theorem saveDatasetComplianceByUrn_sequence_witness:
  "postJSON (backend_serving None)
       (datasetComplianceUrlByUrn (backend_serving None) ''urn:li:dataset:1'')
       (nullifyRetentionFieldsOnComplianceInfo (backend_serving None)
          (''urn:li:dataset:1'', Some 30)) = Inr ()
   \<and> snd (saveDatasetComplianceByUrn (backend_serving None) ''urn:li:dataset:1''
              (''urn:li:dataset:1'', Some 30) []) =
       [PostJSON ''/api/v2/datasets/urn:li:dataset:1/compliance'' (''urn:li:dataset:1'', None),
        SaveDatasetRetentionByUrn ''urn:li:dataset:1'' (Some 30)]
   \<and> postJSON (backend_retention_failing 500)
         (datasetComplianceUrlByUrn (backend_retention_failing 500) ''urn:li:dataset:1'')
         (nullifyRetentionFieldsOnComplianceInfo (backend_retention_failing 500)
            (''urn:li:dataset:1'', Some 30)) = Inr ()
   \<and> saveDatasetRetentionByUrn (backend_retention_failing 500) ''urn:li:dataset:1''
         (extractRetentionFromComplianceInfo (backend_retention_failing 500)
            (''urn:li:dataset:1'', Some 30)) = Inl 500
   \<and> saveDatasetComplianceByUrn (backend_retention_failing 500) ''urn:li:dataset:1''
         (''urn:li:dataset:1'', Some 30) [] =
       (Inl 500,
        [PostJSON ''/api/v2/datasets/urn:li:dataset:1/compliance'' (''urn:li:dataset:1'', None),
         SaveDatasetRetentionByUrn ''urn:li:dataset:1'' (Some 30)])
   \<and> postJSON (backend_failing 500)
         (datasetComplianceUrlByUrn (backend_failing 500) ''urn:li:dataset:1'')
         (nullifyRetentionFieldsOnComplianceInfo (backend_failing 500)
            (''urn:li:dataset:1'', Some 30)) = Inl 500
   \<and> saveDatasetComplianceByUrn (backend_failing 500) ''urn:li:dataset:1''
         (''urn:li:dataset:1'', Some 30) [] =
       (Inl 500,
        [PostJSON ''/api/v2/datasets/urn:li:dataset:1/compliance'' (''urn:li:dataset:1'', None)])"
  using
    saveDatasetComplianceByUrn_sequence
      [of "backend_serving None" "''urn:li:dataset:1''" "(''urn:li:dataset:1'', Some 30)" "[]" 500]
    saveDatasetComplianceByUrn_sequence
      [of "backend_retention_failing 500" "''urn:li:dataset:1''"
          "(''urn:li:dataset:1'', Some 30)" "[]" 500]
    saveDatasetComplianceByUrn_sequence
      [of "backend_failing 500" "''urn:li:dataset:1''" "(''urn:li:dataset:1'', Some 30)" "[]" 500]
  by (simp add: backend_serving_def backend_retention_failing_def backend_failing_def
        example_backend_def datasetComplianceUrlByUrn_def)

section \<open>Deleting a link\<close>

text \<open>
  C7. For every link, \<open>handleDeleteLink\<close> issues one remove request, first of all,
  keyed by the link's url and the link's \<open>associatedUrn\<close>; when the link has no
  \<open>associatedUrn\<close> (it is undefined, or the empty string, which \<open>||\<close> treats alike) the
  request targets the owning entity's own urn. No other mutation is issued.
\<close>

theorem handleDeleteLink_target:
  "(associatedUrn metadata = Some a \<and> a \<noteq> [] \<longrightarrow>
      take 1 (handleDeleteLink p metadata) = [RemoveLink (url metadata) a])
   \<and> (associatedUrn metadata = None \<longrightarrow>
      take 1 (handleDeleteLink p metadata) = [RemoveLink (url metadata) (entityUrn p)])
   \<and> (associatedUrn metadata = Some [] \<longrightarrow>
      take 1 (handleDeleteLink p metadata) = [RemoveLink (url metadata) (entityUrn p)])
   \<and> filter is_mutation (drop 1 (handleDeleteLink p metadata)) = []"
proof -
  have notices: "filter is_mutation (catch_delete e) = []" for e
    by (cases e) simp_all
  show ?thesis
    by (simp add: handleDeleteLink_def Let_def call_refetch_def notices split: sum.split)
qed

theorem handleDeleteLink_target_witness:
  "associatedUrn (example_link (Some ''urn:li:dataset:2'')) = Some ''urn:li:dataset:2''
   \<and> ''urn:li:dataset:2'' \<noteq> []
   \<and> take 1 (handleDeleteLink (example_props (\<lambda>_ _. Inr ()) (\<lambda>_ _ _. Inr ()) signed_in_user)
         (example_link (Some ''urn:li:dataset:2'')))
       = [RemoveLink ''https://wiki/old'' ''urn:li:dataset:2'']
   \<and> associatedUrn (example_link None) = None
   \<and> take 1 (handleDeleteLink (example_props (\<lambda>_ _. Inr ()) (\<lambda>_ _ _. Inr ()) signed_in_user)
         (example_link None))
       = [RemoveLink ''https://wiki/old'' ''urn:li:dataset:1'']
   \<and> associatedUrn (example_link (Some [])) = Some []
   \<and> take 1 (handleDeleteLink (example_props (\<lambda>_ _. Inr ()) (\<lambda>_ _ _. Inr ()) signed_in_user)
         (example_link (Some [])))
       = [RemoveLink ''https://wiki/old'' ''urn:li:dataset:1'']"
  using
    handleDeleteLink_target
      [of "example_link (Some ''urn:li:dataset:2'')" "''urn:li:dataset:2''"
          "example_props (\<lambda>_ _. Inr ()) (\<lambda>_ _ _. Inr ()) signed_in_user"]
    handleDeleteLink_target
      [of "example_link None" "''urn:li:dataset:2''"
          "example_props (\<lambda>_ _. Inr ()) (\<lambda>_ _ _. Inr ()) signed_in_user"]
    handleDeleteLink_target
      [of "example_link (Some [])" "''urn:li:dataset:2''"
          "example_props (\<lambda>_ _. Inr ()) (\<lambda>_ _ _. Inr ()) signed_in_user"]
  by (simp add: example_link_def example_props_def)

text \<open>
  C8. For every link, when a \<open>refetch\<close> callback was given, \<open>handleDeleteLink\<close> calls it
  once, last of all, after the remove request and its notices: when the remove
  mutation resolves and when it rejects, whatever the thrown value.
\<close>

theorem handleDeleteLink_refetch:
  assumes "has_refetch p"
  shows "(\<exists>notices. handleDeleteLink p metadata =
             RemoveLink (url metadata) (logical_or (associatedUrn metadata) (entityUrn p))
               # notices @ [Refetch]
           \<and> Refetch \<notin> set notices)
       \<and> (removeLinkMutation p (url metadata)
              (logical_or (associatedUrn metadata) (entityUrn p)) = Inr () \<longrightarrow>
            handleDeleteLink p metadata =
              [RemoveLink (url metadata) (logical_or (associatedUrn metadata) (entityUrn p)),
               MessageSuccess ''Link Removed'', Refetch])
       \<and> (removeLinkMutation p (url metadata)
              (logical_or (associatedUrn metadata) (entityUrn p)) = Inl e \<longrightarrow>
            handleDeleteLink p metadata =
              RemoveLink (url metadata) (logical_or (associatedUrn metadata) (entityUrn p))
                # catch_delete e @ [Refetch])"
proof -
  have notices: "Refetch \<notin> set (catch_delete x)" for x
    by (cases x) simp_all
  have shape: "\<exists>notices. r # xs @ [Refetch] = r # notices @ [Refetch] \<and> Refetch \<notin> set notices"
    if "Refetch \<notin> set xs" for r xs
    using that by blast
  show ?thesis
    using assms
    by (simp add: handleDeleteLink_def Let_def call_refetch_def notices shape split: sum.split)
qed

theorem handleDeleteLink_refetch_witness:
  "has_refetch (example_props (\<lambda>_ _. Inr ()) (\<lambda>_ _ _. Inr ()) signed_in_user)
   \<and> removeLinkMutation (example_props (\<lambda>_ _. Inr ()) (\<lambda>_ _ _. Inr ()) signed_in_user)
        ''https://wiki/old'' ''urn:li:dataset:1'' = Inr ()
   \<and> handleDeleteLink (example_props (\<lambda>_ _. Inr ()) (\<lambda>_ _ _. Inr ()) signed_in_user)
        (example_link None)
       = [RemoveLink ''https://wiki/old'' ''urn:li:dataset:1'',
          MessageSuccess ''Link Removed'', Refetch]
   \<and> has_refetch
        (example_props (\<lambda>_ _. Inl (ErrorInstance ''Unauthorized'')) (\<lambda>_ _ _. Inr ()) signed_in_user)
   \<and> removeLinkMutation
        (example_props (\<lambda>_ _. Inl (ErrorInstance ''Unauthorized'')) (\<lambda>_ _ _. Inr ()) signed_in_user)
        ''https://wiki/old'' ''urn:li:dataset:1'' = Inl (ErrorInstance ''Unauthorized'')
   \<and> handleDeleteLink
        (example_props (\<lambda>_ _. Inl (ErrorInstance ''Unauthorized'')) (\<lambda>_ _ _. Inr ()) signed_in_user)
        (example_link None)
       = [RemoveLink ''https://wiki/old'' ''urn:li:dataset:1'', MessageDestroy,
          MessageError (''Error removing link: '' @ [CHR 0x0A] @ '' Unauthorized''), Refetch]"
proof -
  have given: "has_refetch (example_props r a u)" for r a u
    by (simp add: example_props_def)
  show ?thesis
    using
      handleDeleteLink_refetch
        [OF given, of "\<lambda>_ _. Inr ()" "\<lambda>_ _ _. Inr ()" signed_in_user "example_link None"
           "ErrorInstance ''Unauthorized''"]
      handleDeleteLink_refetch
        [OF given, of "\<lambda>_ _. Inl (ErrorInstance ''Unauthorized'')" "\<lambda>_ _ _. Inr ()"
           signed_in_user "example_link None" "ErrorInstance ''Unauthorized''"]
    by (simp add: example_link_def example_props_def removing_notice_def)
qed

text \<open>
  C10. In \<open>handleDeleteLink\<close>, when the remove mutation rejects with a value that is not
  an instance of \<open>Error\<close>, no error notice and no success notice is shown: the pending
  notices are destroyed and the refetch, when given, still runs; nothing else happens.
\<close>

theorem handleDeleteLink_silent_failure:
  assumes "removeLinkMutation p (url metadata)
             (logical_or (associatedUrn metadata) (entityUrn p)) = Inl (OtherValue v)"
  shows "handleDeleteLink p metadata =
           RemoveLink (url metadata) (logical_or (associatedUrn metadata) (entityUrn p))
             # MessageDestroy # (if has_refetch p then [Refetch] else [])
         \<and> (\<forall>content. MessageError content \<notin> set (handleDeleteLink p metadata)
                     \<and> MessageSuccess content \<notin> set (handleDeleteLink p metadata))"
  using assms by (simp add: handleDeleteLink_def Let_def call_refetch_def)

theorem handleDeleteLink_silent_failure_witness:
  "removeLinkMutation
       (example_props (\<lambda>_ _. Inl (OtherValue ''offline'')) (\<lambda>_ _ _. Inr ()) signed_in_user)
       (url (example_link None))
       (logical_or (associatedUrn (example_link None))
          (entityUrn
             (example_props (\<lambda>_ _. Inl (OtherValue ''offline'')) (\<lambda>_ _ _. Inr ()) signed_in_user)))
     = Inl (OtherValue ''offline'')
   \<and> handleDeleteLink
        (example_props (\<lambda>_ _. Inl (OtherValue ''offline'')) (\<lambda>_ _ _. Inr ()) signed_in_user)
        (example_link None)
       = [RemoveLink ''https://wiki/old'' ''urn:li:dataset:1'', MessageDestroy, Refetch]"
  using handleDeleteLink_silent_failure
      [of "example_props (\<lambda>_ _. Inl (OtherValue ''offline'')) (\<lambda>_ _ _. Inr ()) signed_in_user"
          "example_link None" "''offline''"]
  by (simp add: example_link_def example_props_def)

section \<open>Editing a link\<close>

text \<open>
  C6, as amended. Editing a link is delete-old-then-create-new, never an in-place
  mutation: with no link at hand \<open>handleEdit\<close> does nothing; otherwise the mutations it
  issues are the remove request for the old link alone, or that request followed by
  the add request for the new fields. When the remove has resolved and the create
  then does not happen (no user is signed in) or fails (the add mutation rejects), the
  old link stays removed and nothing is issued to restore it. The error is reported,
  as an error notice, when no user is signed in and when the thrown value is an
  instance of \<open>Error\<close>; a rejection with any other value only destroys the pending
  notices and shows no error notice. The same holds when the remove itself rejects.
  When both mutations resolve, the success notice, the analytics event, the refetch
  (when given) and the closing of the dialog follow the add request, in that order.
\<close>

theorem handleEdit_remove_then_add:
  "(linkDetails p = None \<longrightarrow> handleEdit p fd = [])
   \<and> (linkDetails p = Some details \<longrightarrow>
        (filter is_mutation (handleEdit p fd) =
           [RemoveLink (url details) (logical_or (associatedUrn details) (entityUrn p))]
         \<or> filter is_mutation (handleEdit p fd) =
           [RemoveLink (url details) (logical_or (associatedUrn details) (entityUrn p)),
            AddLink (form_url fd) (form_label fd) (mutationUrn p)])
      \<and> (removeLinkMutation p (url details)
             (logical_or (associatedUrn details) (entityUrn p)) = Inl (ErrorInstance msg) \<longrightarrow>
           handleEdit p fd =
             [RemoveLink (url details) (logical_or (associatedUrn details) (entityUrn p)),
              MessageDestroy, MessageError (updating_notice msg)])
      \<and> (removeLinkMutation p (url details)
             (logical_or (associatedUrn details) (entityUrn p)) = Inl (OtherValue v) \<longrightarrow>
           handleEdit p fd =
             [RemoveLink (url details) (logical_or (associatedUrn details) (entityUrn p)),
              MessageDestroy])
      \<and> (removeLinkMutation p (url details)
             (logical_or (associatedUrn details) (entityUrn p)) = Inr ()
           \<and> \<not> truthy (optional_urn (user p)) \<longrightarrow>
           handleEdit p fd =
             [RemoveLink (url details) (logical_or (associatedUrn details) (entityUrn p)),
              MessageError ''Error updating link: no user''])
      \<and> (removeLinkMutation p (url details)
             (logical_or (associatedUrn details) (entityUrn p)) = Inr ()
           \<and> truthy (optional_urn (user p))
           \<and> addLinkMutation p (form_url fd) (form_label fd) (mutationUrn p)
               = Inl (ErrorInstance msg) \<longrightarrow>
           handleEdit p fd =
             [RemoveLink (url details) (logical_or (associatedUrn details) (entityUrn p)),
              AddLink (form_url fd) (form_label fd) (mutationUrn p),
              MessageDestroy, MessageError (updating_notice msg)])
      \<and> (removeLinkMutation p (url details)
             (logical_or (associatedUrn details) (entityUrn p)) = Inr ()
           \<and> truthy (optional_urn (user p))
           \<and> addLinkMutation p (form_url fd) (form_label fd) (mutationUrn p)
               = Inl (OtherValue v) \<longrightarrow>
           handleEdit p fd =
             [RemoveLink (url details) (logical_or (associatedUrn details) (entityUrn p)),
              AddLink (form_url fd) (form_label fd) (mutationUrn p),
              MessageDestroy]
           \<and> filter is_error_notice (handleEdit p fd) = [])
      \<and> (removeLinkMutation p (url details)
             (logical_or (associatedUrn details) (entityUrn p)) = Inr ()
           \<and> truthy (optional_urn (user p))
           \<and> addLinkMutation p (form_url fd) (form_label fd) (mutationUrn p) = Inr () \<longrightarrow>
           handleEdit p fd =
             [RemoveLink (url details) (logical_or (associatedUrn details) (entityUrn p)),
              AddLink (form_url fd) (form_label fd) (mutationUrn p),
              MessageSuccess ''Link Updated'',
              AnalyticsEntityActionEvent (entityType p) (mutationUrn p) ''UpdateLinks'']
             @ (if has_refetch p then [Refetch] else [])
             @ [SetEditModalVisible False]))"
proof -
  have notices: "filter is_mutation (catch_edit x) = []" for x
    by (cases x) simp_all
  show ?thesis
    by (simp add: handleEdit_def Let_def call_refetch_def handleClose_def notices
          split: sum.split)
qed

theorem handleEdit_remove_then_add_witness:
  "linkDetails props_no_link = None
   \<and> handleEdit props_no_link example_form = []
   \<and> linkDetails (props_remove_rejecting (ErrorInstance ''Unauthorized''))
       = Some (example_link None)
   \<and> removeLinkMutation (props_remove_rejecting (ErrorInstance ''Unauthorized''))
        ''https://wiki/old'' ''urn:li:dataset:1'' = Inl (ErrorInstance ''Unauthorized'')
   \<and> handleEdit (props_remove_rejecting (ErrorInstance ''Unauthorized'')) example_form
       = [RemoveLink ''https://wiki/old'' ''urn:li:dataset:1'', MessageDestroy,
          MessageError (''Error updating link: '' @ [CHR 0x0A] @ '' Unauthorized'')]
   \<and> removeLinkMutation (props_remove_rejecting (OtherValue ''cancelled''))
        ''https://wiki/old'' ''urn:li:dataset:1'' = Inl (OtherValue ''cancelled'')
   \<and> handleEdit (props_remove_rejecting (OtherValue ''cancelled'')) example_form
       = [RemoveLink ''https://wiki/old'' ''urn:li:dataset:1'', MessageDestroy]
   \<and> removeLinkMutation props_signed_out ''https://wiki/old'' ''urn:li:dataset:1'' = Inr ()
   \<and> \<not> truthy (optional_urn (user props_signed_out))
   \<and> handleEdit props_signed_out example_form
       = [RemoveLink ''https://wiki/old'' ''urn:li:dataset:1'',
          MessageError ''Error updating link: no user'']
   \<and> truthy (optional_urn (user (props_add_rejecting (ErrorInstance ''Unauthorized''))))
   \<and> addLinkMutation (props_add_rejecting (ErrorInstance ''Unauthorized''))
        ''https://wiki/new'' ''New page'' ''urn:li:dataset:1'' = Inl (ErrorInstance ''Unauthorized'')
   \<and> handleEdit (props_add_rejecting (ErrorInstance ''Unauthorized'')) example_form
       = [RemoveLink ''https://wiki/old'' ''urn:li:dataset:1'',
          AddLink ''https://wiki/new'' ''New page'' ''urn:li:dataset:1'',
          MessageDestroy,
          MessageError (''Error updating link: '' @ [CHR 0x0A] @ '' Unauthorized'')]
   \<and> addLinkMutation (props_add_rejecting (OtherValue ''cancelled''))
        ''https://wiki/new'' ''New page'' ''urn:li:dataset:1'' = Inl (OtherValue ''cancelled'')
   \<and> handleEdit (props_add_rejecting (OtherValue ''cancelled'')) example_form
       = [RemoveLink ''https://wiki/old'' ''urn:li:dataset:1'',
          AddLink ''https://wiki/new'' ''New page'' ''urn:li:dataset:1'',
          MessageDestroy]
   \<and> addLinkMutation props_accepting
        ''https://wiki/new'' ''New page'' ''urn:li:dataset:1'' = Inr ()
   \<and> handleEdit props_accepting example_form
       = [RemoveLink ''https://wiki/old'' ''urn:li:dataset:1'',
          AddLink ''https://wiki/new'' ''New page'' ''urn:li:dataset:1'',
          MessageSuccess ''Link Updated'',
          AnalyticsEntityActionEvent ''DATASET'' ''urn:li:dataset:1'' ''UpdateLinks'',
          Refetch, SetEditModalVisible False]"
  using
    handleEdit_remove_then_add
      [where p = props_no_link and fd = example_form and details = "example_link None"
         and msg = "''Unauthorized''" and v = "''cancelled''"]
    handleEdit_remove_then_add
      [where p = "props_remove_rejecting (ErrorInstance ''Unauthorized'')" and fd = example_form
         and details = "example_link None" and msg = "''Unauthorized''" and v = "''cancelled''"]
    handleEdit_remove_then_add
      [where p = "props_remove_rejecting (OtherValue ''cancelled'')" and fd = example_form
         and details = "example_link None" and msg = "''Unauthorized''" and v = "''cancelled''"]
    handleEdit_remove_then_add
      [where p = props_signed_out and fd = example_form and details = "example_link None"
         and msg = "''Unauthorized''" and v = "''cancelled''"]
    handleEdit_remove_then_add
      [where p = "props_add_rejecting (ErrorInstance ''Unauthorized'')" and fd = example_form
         and details = "example_link None" and msg = "''Unauthorized''" and v = "''cancelled''"]
    handleEdit_remove_then_add
      [where p = "props_add_rejecting (OtherValue ''cancelled'')" and fd = example_form
         and details = "example_link None" and msg = "''Unauthorized''" and v = "''cancelled''"]
    handleEdit_remove_then_add
      [where p = props_accepting and fd = example_form and details = "example_link None"
         and msg = "''Unauthorized''" and v = "''cancelled''"]
  by (simp add: props_no_link_def props_remove_rejecting_def props_signed_out_def
        props_add_rejecting_def props_accepting_def example_props_def example_link_def
        example_form_def signed_in_user_def updating_notice_def)

text \<open>
  C6, as first stated, ends with "the error is only reported": every failure after the
  delete would show an error notice. It does not: the \<open>catch\<close> block shows one only for
  an instance of \<open>Error\<close>. Here the remove resolves, a user is signed in and the add
  mutation rejects with a value that is not an \<open>Error\<close>; the old link is removed, the
  new one is not created, and no error notice is among the events.
\<close>

theorem handleEdit_unreported_failure:
  "removeLinkMutation (props_add_rejecting (OtherValue ''offline''))
       ''https://wiki/old'' ''urn:li:dataset:1'' = Inr ()
   \<and> addLinkMutation (props_add_rejecting (OtherValue ''offline''))
        ''https://wiki/new'' ''New page'' ''urn:li:dataset:1'' = Inl (OtherValue ''offline'')
   \<and> handleEdit (props_add_rejecting (OtherValue ''offline'')) example_form
       = [RemoveLink ''https://wiki/old'' ''urn:li:dataset:1'',
          AddLink ''https://wiki/new'' ''New page'' ''urn:li:dataset:1'',
          MessageDestroy]
   \<and> filter is_error_notice
        (handleEdit (props_add_rejecting (OtherValue ''offline'')) example_form) = []"
  by (simp add: handleEdit_def props_add_rejecting_def example_props_def example_link_def
        example_form_def signed_in_user_def)

text \<open>
  C2. With no signed-in user, \<open>handleEdit\<close> is to report an error and stop before any
  write. The test of \<open>user?.urn\<close> comes after the awaited remove mutation: run for a link
  with nobody signed in and a backend that accepts the removal, the handler removes
  the old link, issues no add request, and shows the no-user error; it neither
  refetches nor closes the dialog.
\<close>

theorem handleEdit_signed_out_removes_link:
  "handleEdit (example_props (\<lambda>_ _. Inr ()) (\<lambda>_ _ _. Inr ()) None) example_form =
     [RemoveLink ''https://wiki/old'' ''urn:li:dataset:1'',
      MessageError ''Error updating link: no user'']"
  by (simp add: handleEdit_def example_props_def example_link_def example_form_def)

end
